theory Spec2Isabelle
  imports Main
begin

section \<open>Python strings and POSIX paths\<close>

text \<open>
  The module \<^verbatim>\<open>skbuild/utils/__init__.py\<close> works on path strings. A Python \<^verbatim>\<open>str\<close> is a
  \<^typ>\<open>string\<close>; the value \<^verbatim>\<open>None\<close> of an optional argument is \<^term>\<open>None\<close>.
\<close>

type_synonym path = string

text \<open>\<^verbatim>\<open>s.replace(old, new)\<close> where \<^verbatim>\<open>old\<close> is one character: every occurrence is replaced.\<close>

definition str_replace :: "char \<Rightarrow> string \<Rightarrow> string \<Rightarrow> string" where
  "str_replace old new s = concat (map (\<lambda>c. if c = old then new else [c]) s)"

text \<open>\<^verbatim>\<open>s.startswith(p)\<close> and \<^verbatim>\<open>s.endswith(p)\<close>.\<close>

definition startswith :: "string \<Rightarrow> string \<Rightarrow> bool" where
  "startswith s p = (take (length p) s = p)"

definition endswith :: "string \<Rightarrow> string \<Rightarrow> bool" where
  "endswith s p = (length p \<le> length s \<and> drop (length s - length p) s = p)"

text \<open>
  \<^verbatim>\<open>os.path.join(a, b)\<close> of \<^verbatim>\<open>posixpath\<close>, for two arguments: an absolute \<^verbatim>\<open>b\<close> replaces
  \<^verbatim>\<open>a\<close>; an empty \<^verbatim>\<open>a\<close> or one that ends with the separator takes \<^verbatim>\<open>b\<close> as it is;
  otherwise one separator is put between them.
\<close>

definition os_path_join :: "path \<Rightarrow> path \<Rightarrow> path" where
  "os_path_join a b =
     (if startswith b ''/'' then b
      else if a = [] \<or> endswith a ''/'' then a @ b
      else a @ ''/'' @ b)"

text \<open>The exceptions the modelled code can meet. A raise is the left injection of a sum.\<close>

datatype exn =
    OSError string
  | TypeError string
  | DistutilsFileError string
  | DistutilsTemplateError string
  | ValueError string
  | OtherError string

text \<open>
  What the code asks of the file system, relative to the current directory (the project
  root, the Primary Root): \<^verbatim>\<open>os.path.exists\<close> and \<^verbatim>\<open>os.path.isfile\<close>.
\<close>

record filesystem =
  path_exists :: "path \<Rightarrow> bool"
  path_isfile :: "path \<Rightarrow> bool"

section \<open>Path normalizers\<close>

text \<open>
  \<^verbatim>\<open>def to_platform_path(path):
    return path.replace("/", os.sep).replace("\\", os.sep) if path is not None else None\<close>

  \<^verbatim>\<open>def to_unix_path(path):
    return path.replace("\\", "/") if path is not None else None\<close>

  \<^verbatim>\<open>os.sep\<close> is a constant of the platform; it is the first argument of the model.
\<close>

definition to_platform_path :: "string \<Rightarrow> path option \<Rightarrow> path option" where
  "to_platform_path os_sep p =
     (case p of
        Some s \<Rightarrow> Some (str_replace (CHR 0x5C) os_sep (str_replace CHR ''/'' os_sep s))
      | None \<Rightarrow> None)"

definition to_unix_path :: "path option \<Rightarrow> path option" where
  "to_unix_path p =
     (case p of
        Some s \<Rightarrow> Some (str_replace (CHR 0x5C) ''/'' s)
      | None \<Rightarrow> None)"

section \<open>The working directory: \<^verbatim>\<open>push_dir\<close>\<close>

text \<open>
  The state of the process that \<^verbatim>\<open>push_dir\<close> touches: the current working directory, an
  absolute path as \<^verbatim>\<open>os.getcwd()\<close> returns it, and the directories that exist.
  A computation takes the state and returns its outcome (a value or an exception) with
  the state it leaves.
\<close>

record os_state =
  cwd :: path
  dirs :: "path set"

type_synonym 'a io = "os_state \<Rightarrow> (exn + 'a) \<times> os_state"

definition os_getcwd :: "os_state \<Rightarrow> path" where
  "os_getcwd s = cwd s"

text \<open>
  \<^verbatim>\<open>os.chdir(d)\<close>: a relative \<open>d\<close> is resolved against the current directory (the path is
  not normalised); the call raises \<^verbatim>\<open>OSError\<close> and changes nothing when the target is not
  an existing directory.
\<close>

definition os_chdir :: "path \<Rightarrow> unit io" where
  "os_chdir d s =
     (let target = os_path_join (cwd s) d
      in if target \<in> dirs s then (Inr (), s\<lparr>cwd := target\<rparr>) else (Inl (OSError d), s))"

text \<open>
  \<^verbatim>\<open>class push_dir(ContextDecorator):
    def __init__(self, directory=None, make_directory=False):
        self.directory = directory
        self.make_directory = make_directory
        self.old_cwd = None
    def __enter__(self):
        self.old_cwd = os.getcwd()
        if self.directory:
            if self.make_directory:
                os.makedirs(self.directory, exist_ok=True)
            os.chdir(self.directory)
        return self
    def __exit__(self, typ, val, traceback):
        os.chdir(self.old_cwd)\<close>

  \<^verbatim>\<open>os.makedirs\<close> is an argument of the model (\<open>makedirs\<close>). A directory that is \<^verbatim>\<open>None\<close> or
  the empty string is false in \<^verbatim>\<open>if self.directory\<close>.
\<close>

record push_dir =
  directory :: "path option"
  make_directory :: bool
  old_cwd :: "path option"

definition push_dir_init :: "path option \<Rightarrow> bool \<Rightarrow> push_dir" where
  "push_dir_init d m = \<lparr>directory = d, make_directory = m, old_cwd = None\<rparr>"

definition push_dir_enter :: "(path \<Rightarrow> unit io) \<Rightarrow> push_dir \<Rightarrow> push_dir io" where
  "push_dir_enter makedirs self s =
     (let self1 = self\<lparr>old_cwd := Some (os_getcwd s)\<rparr>
      in case directory self1 of
           None \<Rightarrow> (Inr self1, s)
         | Some d \<Rightarrow>
             if d = [] then (Inr self1, s)
             else
               (case (if make_directory self1 then makedirs d s else (Inr (), s)) of
                  (Inl e, s1) \<Rightarrow> (Inl e, s1)
                | (Inr u, s1) \<Rightarrow>
                    (case os_chdir d s1 of
                       (Inl e, s2) \<Rightarrow> (Inl e, s2)
                     | (Inr v, s2) \<Rightarrow> (Inr self1, s2))))"

definition push_dir_exit :: "push_dir \<Rightarrow> unit io" where
  "push_dir_exit self s =
     (case old_cwd self of
        Some d \<Rightarrow> os_chdir d s
      | None \<Rightarrow> (Inl (TypeError ''chdir: path should be string, not NoneType''), s))"

text \<open>
  \<^verbatim>\<open>def find_all_modules(self, project_dir=None):
    with push_dir(project_dir):
        return super().find_all_modules()\<close>

  The \<^verbatim>\<open>with\<close> statement: when \<^verbatim>\<open>__enter__\<close> raises, the body does not run and \<^verbatim>\<open>__exit__\<close>
  is not called. Otherwise \<^verbatim>\<open>__exit__\<close> runs after the body, whether the body returned or
  raised; it returns \<^verbatim>\<open>None\<close>, so an exception of the body goes on to the caller; an
  exception of \<^verbatim>\<open>__exit__\<close> itself replaces the outcome. The method of the base class
  (distutils' \<^verbatim>\<open>build_py.find_all_modules\<close>) is the argument \<open>super_find_all_modules\<close>: any
  computation on the state.
\<close>

definition find_all_modules :: "(path \<Rightarrow> unit io) \<Rightarrow> 'a io \<Rightarrow> path option \<Rightarrow> 'a io" where
  "find_all_modules makedirs super_find_all_modules project_dir s =
     (case push_dir_enter makedirs (push_dir_init project_dir False) s of
        (Inl e, s1) \<Rightarrow> (Inl e, s1)
      | (Inr cm, s1) \<Rightarrow>
          (case super_find_all_modules s1 of
             (r, s2) \<Rightarrow>
               (case push_dir_exit cm s2 of
                  (Inl e, s3) \<Rightarrow> (Inl e, s3)
                | (Inr u, s3) \<Rightarrow> (r, s3))))"

section \<open>The module finder: \<^verbatim>\<open>PythonModuleFinder\<close>\<close>

text \<open>A module triple \<^verbatim>\<open>(package, module, module_file)\<close>.\<close>

type_synonym module_triple = "string \<times> string \<times> path"

record python_module_finder =
  packages :: "string list"
  package_dir :: "(string \<times> path) list"
  py_modules :: "string list"
  alternative_build_base :: "path option"

text \<open>
  \<^verbatim>\<open>def _strip_directory(entry):
    module_file = entry[2]
    if self.alternative_build_base is not None and module_file.startswith(self.alternative_build_base):
        module_file = module_file[len(self.alternative_build_base) + 1 :]
    return entry[0], entry[1], module_file\<close>

  The slice \<^verbatim>\<open>s[n:]\<close> with \<open>n \<ge> 0\<close> is \<^term>\<open>drop n s\<close> (empty when \<open>n\<close> exceeds the length).
\<close>

definition strip_directory :: "python_module_finder \<Rightarrow> module_triple \<Rightarrow> module_triple" where
  "strip_directory self entry =
     (let module_file = snd (snd entry);
          module_file1 =
            (case alternative_build_base self of
               Some b \<Rightarrow> if startswith module_file b then drop (length b + 1) module_file
                         else module_file
             | None \<Rightarrow> module_file)
      in (fst entry, fst (snd entry), module_file1))"

text \<open>
  \<^verbatim>\<open>def find_package_modules(self, package, package_dir):
    if package_dir != "" and not os.path.exists(package_dir) and self.alternative_build_base is not None:
        package_dir = os.path.join(self.alternative_build_base, package_dir)
    modules = super().find_package_modules(package, package_dir)
    ...
    return map(_strip_directory, modules)\<close>

  The method of the base class (distutils' \<^verbatim>\<open>build_py.find_package_modules\<close>, which lists
  the \<^verbatim>\<open>*.py\<close> files of the directory or raises) is the argument
  \<open>super_find_package_modules\<close>. The lazy \<^verbatim>\<open>map\<close> object is the list of its elements.
\<close>

definition find_package_modules ::
  "filesystem \<Rightarrow> (string \<Rightarrow> path \<Rightarrow> exn + module_triple list) \<Rightarrow> python_module_finder
     \<Rightarrow> string \<Rightarrow> path \<Rightarrow> exn + module_triple list" where
  "find_package_modules fs super_find_package_modules self package pdir =
     (let pdir1 =
            (case alternative_build_base self of
               Some b \<Rightarrow> if pdir \<noteq> [] \<and> \<not> path_exists fs pdir then os_path_join b pdir else pdir
             | None \<Rightarrow> pdir)
      in case super_find_package_modules package pdir1 of
           Inl e \<Rightarrow> Inl e
         | Inr modules \<Rightarrow> Inr (map (strip_directory self) modules))"

text \<open>
  \<^verbatim>\<open>def check_module(self, module, module_file):
    if self.alternative_build_base is not None:
        updated_module_file = os.path.join(self.alternative_build_base, module_file)
        if os.path.exists(updated_module_file):
            module_file = updated_module_file
    if not os.path.isfile(module_file):
        _log_warning("file %s (for module %s) not found", module_file, module)
        return False
    return True\<close>

  The result is the returned boolean with the warnings logged, in order. \<^verbatim>\<open>_log_warning\<close>
  hands the formatted message to the logger, or prints it when the logger is disconnected;
  the message is recorded either way.
\<close>

definition not_found_warning :: "path \<Rightarrow> string \<Rightarrow> string" where
  "not_found_warning module_file module =
     ''file '' @ module_file @ '' (for module '' @ module @ '') not found''"

definition check_module ::
  "filesystem \<Rightarrow> python_module_finder \<Rightarrow> string \<Rightarrow> path \<Rightarrow> bool \<times> string list" where
  "check_module fs self module module_file =
     (let module_file1 =
            (case alternative_build_base self of
               Some b \<Rightarrow>
                 (let updated_module_file = os_path_join b module_file
                  in if path_exists fs updated_module_file then updated_module_file
                     else module_file)
             | None \<Rightarrow> module_file)
      in if \<not> path_isfile fs module_file1
         then (False, [not_found_warning module_file1 module])
         else (True, []))"

text \<open>
  The existence check as the specification words it, to compare with \<^const>\<open>check_module\<close>:
  the path is looked up under the Primary Root first, and under the Secondary Root only
  when it is absent there and a Secondary Root is configured.
\<close>

definition file_exists_spec ::
  "filesystem \<Rightarrow> python_module_finder \<Rightarrow> string \<Rightarrow> path \<Rightarrow> bool \<times> string list" where
  "file_exists_spec fs self module module_file =
     (if path_isfile fs module_file then (True, [])
      else
        (case alternative_build_base self of
           Some b \<Rightarrow>
             if path_isfile fs (os_path_join b module_file) then (True, [])
             else (False, [not_found_warning module_file module])
         | None \<Rightarrow> (False, [not_found_warning module_file module])))"

section \<open>The manifest template: \<^verbatim>\<open>parse_manifestin\<close>\<close>

text \<open>
  distutils' \<^verbatim>\<open>FileList\<close> has the attributes \<^verbatim>\<open>allfiles\<close> and \<^verbatim>\<open>files\<close>; a new one has
  \<^verbatim>\<open>allfiles = None\<close> and \<^verbatim>\<open>files = []\<close>.
\<close>

record file_list =
  allfiles :: "path list option"
  files :: "path list"

definition FileList :: file_list where
  "FileList = \<lparr>allfiles = None, files = []\<rparr>"

text \<open>One call of \<^verbatim>\<open>TextFile.readline()\<close> before the end of the file.\<close>

datatype readline =
    Logical_line string string
  | Read_error exn

text \<open>The two exceptions that \<^verbatim>\<open>except (DistutilsTemplateError, ValueError) as msg\<close> catches,
  with the text \<^verbatim>\<open>str(msg)\<close>.\<close>

fun caught :: "exn \<Rightarrow> string option" where
  "caught (DistutilsTemplateError msg) = Some msg"
| "caught (ValueError msg) = Some msg"
| "caught e = None"

text \<open>
  \<^verbatim>\<open>while True:
    line = template.readline()
    if line is None:  # end of file
        break
    try:
        file_list.process_template_line(line)
    except (DistutilsTemplateError, ValueError) as msg:
        print(f"{template.filename}, line {template.current_line}: {msg}")
return file_list.files\<close>

  What the successive calls of \<^verbatim>\<open>template.readline()\<close> give, up to the end of the file, is
  a list of \<^typ>\<open>readline\<close> results: a logical line, with the text of
  \<^verbatim>\<open>template.current_line\<close> after the read, or an exception of the read (a file that cannot
  be decoded, an I/O error). The read stands outside the inner \<^verbatim>\<open>try\<close>, so its exception
  ends the parse. \<^verbatim>\<open>process_template_line\<close> is the argument \<open>ptl\<close>: it returns the updated
  file list or raises, and both caught exceptions are raised while the line is parsed,
  before the file list is touched; any other exception goes on to the caller. The result
  is the outcome with the lines printed.
\<close>

fun manifest_loop ::
  "(string \<Rightarrow> file_list \<Rightarrow> exn + file_list) \<Rightarrow> path \<Rightarrow> readline list
     \<Rightarrow> file_list \<Rightarrow> string list \<Rightarrow> (exn + path list) \<times> string list" where
  "manifest_loop ptl fname [] fl out = (Inr (files fl), out)"
| "manifest_loop ptl fname (Read_error e # rest) fl out = (Inl e, out)"
| "manifest_loop ptl fname (Logical_line current_line line # rest) fl out =
     (case ptl line fl of
        Inr fl1 \<Rightarrow> manifest_loop ptl fname rest fl1 out
      | Inl e \<Rightarrow>
          (case caught e of
             Some msg \<Rightarrow>
               manifest_loop ptl fname rest fl
                 (out @ [fname @ '', line '' @ current_line @ '': '' @ msg])
           | None \<Rightarrow> (Inl e, out)))"

text \<open>
  \<^verbatim>\<open>def parse_manifestin(template):
    if not os.path.exists(template):
        return []
    template = TextFile(template, strip_comments=1, skip_blanks=1, join_lines=1,
                        lstrip_ws=1, rstrip_ws=1, collapse_join=1)
    file_list = FileList()
    try:
        ...
    finally:
        template.close()\<close>

  \<open>read_template\<close> stands for distutils' \<^verbatim>\<open>TextFile\<close> on the file at a path: the exception of
  the constructor when the file cannot be opened (a directory, no permission), which is
  raised before the \<^verbatim>\<open>try\<close> and ends the call, or the results of the reads. Closing
  the file in the \<^verbatim>\<open>finally\<close> clause does not change the outcome.
\<close>

definition parse_manifestin ::
  "filesystem \<Rightarrow> (path \<Rightarrow> exn + readline list) \<Rightarrow> (string \<Rightarrow> file_list \<Rightarrow> exn + file_list)
     \<Rightarrow> path \<Rightarrow> (exn + path list) \<times> string list" where
  "parse_manifestin fs read_template ptl template =
     (if \<not> path_exists fs template then (Inr [], [])
      else
        (case read_template template of
           Inl e \<Rightarrow> (Inl e, [])
         | Inr reads \<Rightarrow> manifest_loop ptl template reads FileList []))"


section \<open>The package-prefix stripper: \<^verbatim>\<open>strip_package\<close>\<close>

text \<open>
  \<^verbatim>\<open>"/".join(parts)\<close> and the split of a string at every occurrence of a character
  (\<^verbatim>\<open>s.split(c)\<close>: the empty string gives one empty segment).
\<close>

fun str_join :: "string \<Rightarrow> string list \<Rightarrow> string" where
  "str_join sep [] = []"
| "str_join sep [x] = x"
| "str_join sep (x # y # ys) = x @ sep @ str_join sep (y # ys)"

fun str_split :: "char \<Rightarrow> string \<Rightarrow> string list" where
  "str_split c [] = [[]]"
| "str_split c (x # xs) =
     (if x = c then [] # str_split c xs
      else (case str_split c xs of
              [] \<Rightarrow> [[x]]
            | seg # segs \<Rightarrow> (x # seg) # segs))"

text \<open>The segments of a path, with both \<^verbatim>\<open>/\<close> and \<^verbatim>\<open>\\<close> taken as delimiters.\<close>

definition path_segments :: "path \<Rightarrow> string list" where
  "path_segments f = str_split CHR ''/'' (str_replace (CHR 0x5C) ''/'' f)"

text \<open>A path is absolute when it starts with a delimiter.\<close>

definition is_absolute :: "path \<Rightarrow> bool" where
  "is_absolute f = (startswith f ''/'' \<or> startswith f [CHR 0x5C])"

text \<open>The segments left after the package components are taken off the front, one by one;
  \<^term>\<open>None\<close> when a component differs from its segment or the segments run out.\<close>

fun strip_components :: "string list \<Rightarrow> string list \<Rightarrow> string list option" where
  "strip_components [] segs = Some segs"
| "strip_components (p # ps) [] = None"
| "strip_components (p # ps) (seg # segs) =
     (if p = seg then strip_components ps segs else None)"

text \<open>
  Modelled from the spec: \<^verbatim>\<open>strip_package\<close> of \<^verbatim>\<open>skbuild/setuptools_wrap.py\<close>, which is not
  among the sources; only its test (\<^verbatim>\<open>test_strip_package\<close> of \<^verbatim>\<open>tests/test_setup.py\<close>) is.
  The specification (section 4.2): the input is an ordered list of package-name
  components and a module file path; the output is the path with the leading segments
  that match the components removed, provided those segments are a contiguous, leading
  subsequence of the path's segments, and the path unchanged otherwise. An empty component
  list leaves the path unchanged; an absolute path never strips; backslash and forward
  slash are both segment delimiters and the output uses the forward slash; when every
  segment is matched the result is the empty string.
\<close>

definition strip_package :: "string list \<Rightarrow> path \<Rightarrow> path" where
  "strip_package package_parts module_file =
     (if package_parts = [] \<or> is_absolute module_file then module_file
      else
        (case strip_components package_parts (path_segments module_file) of
           Some rest \<Rightarrow> str_join ''/'' rest
         | None \<Rightarrow> module_file))"

section \<open>Concrete inputs\<close>

text \<open>A tree with nothing in it.\<close>

definition fs_empty :: filesystem where
  "fs_empty = \<lparr>path_exists = (\<lambda>p. False), path_isfile = (\<lambda>p. False)\<rparr>"

text \<open>
  A source tree with the module \<^verbatim>\<open>foo.py\<close>, and an install tree \<^verbatim>\<open>inst\<close> in which
  \<^verbatim>\<open>inst/foo.py\<close> is a directory.
\<close>

definition fs_shadowed :: filesystem where
  "fs_shadowed =
     \<lparr>path_exists = (\<lambda>p. p = ''foo.py'' \<or> p = ''inst'' \<or> p = ''inst/foo.py''),
      path_isfile = (\<lambda>p. p = ''foo.py'')\<rparr>"

definition finder_inst :: python_module_finder where
  "finder_inst =
     \<lparr>packages = [], package_dir = [], py_modules = [''foo''],
      alternative_build_base = Some ''inst''\<rparr>"

text \<open>
  An install tree \<^verbatim>\<open>inst\<close> that holds the package \<^verbatim>\<open>pkg\<close> with the module \<^verbatim>\<open>mod.py\<close>;
  the source tree has no directory \<^verbatim>\<open>pkg\<close>. The base class lists the one module.
\<close>

definition fs_overlay :: filesystem where
  "fs_overlay =
     \<lparr>path_exists = (\<lambda>p. p = ''inst'' \<or> p = ''inst/pkg'' \<or> p = ''inst/pkg/mod.py''),
      path_isfile = (\<lambda>p. p = ''inst/pkg/mod.py'')\<rparr>"

definition super_overlay :: "string \<Rightarrow> path \<Rightarrow> exn + module_triple list" where
  "super_overlay package pdir =
     (if pdir = ''inst/pkg'' then Inr [(package, ''mod'', ''inst/pkg/mod.py'')]
      else Inl (DistutilsFileError (''package directory '' @ pdir @ '' does not exist'')))"

definition finder_pkg :: "path \<Rightarrow> python_module_finder" where
  "finder_pkg base =
     \<lparr>packages = [''pkg''], package_dir = [], py_modules = [],
      alternative_build_base = Some base\<rparr>"

text \<open>
  A source tree that holds the package directory \<^verbatim>\<open>cmake-installer\<close> itself, while the
  Secondary Root is \<^verbatim>\<open>cmake-install\<close>.
\<close>

definition fs_installer :: filesystem where
  "fs_installer =
     \<lparr>path_exists = (\<lambda>p. p = ''cmake-installer'' \<or> p = ''cmake-installer/x.py''),
      path_isfile = (\<lambda>p. p = ''cmake-installer/x.py'')\<rparr>"

definition super_installer :: "string \<Rightarrow> path \<Rightarrow> exn + module_triple list" where
  "super_installer package pdir =
     (if pdir = ''cmake-installer'' then Inr [(package, ''x'', ''cmake-installer/x.py'')]
      else Inl (DistutilsFileError (''package directory '' @ pdir @ '' does not exist'')))"

definition finder_installer :: python_module_finder where
  "finder_installer =
     \<lparr>packages = [''cmake-installer''], package_dir = [], py_modules = [],
      alternative_build_base = Some ''cmake-install''\<rparr>"

text \<open>
  A process in \<^verbatim>\<open>/home\<close> with the project at \<^verbatim>\<open>/proj\<close>; a discovery that moves into
  \<^verbatim>\<open>/proj/sub\<close> and then fails, and one that returns.
\<close>

definition os_home :: os_state where
  "os_home = \<lparr>cwd = ''/home'', dirs = {''/home'', ''/proj'', ''/proj/sub''}\<rparr>"

definition discovery_fails :: "module_triple list io" where
  "discovery_fails s =
     (Inl (DistutilsFileError ''package directory pkg does not exist''),
      s\<lparr>cwd := ''/proj/sub''\<rparr>)"

definition discovery_returns :: "module_triple list io" where
  "discovery_returns s = (Inr [(''pkg'', ''mod'', ''pkg/mod.py'')], s)"

definition no_makedirs :: "path \<Rightarrow> unit io" where
  "no_makedirs d s = (Inr (), s)"


definition manifest_lines :: "(string \<times> string) list" where
  "manifest_lines =
     [(''1'', ''include a.txt''), (''2'', ''bogus''), (''3'', ''include /etc/passwd''),
      (''4'', ''include b.txt'')]"

definition template_lines :: "path \<Rightarrow> exn + readline list" where
  "template_lines p = Inr (map (\<lambda>(n, line). Logical_line n line) manifest_lines)"

definition include_only :: "string \<Rightarrow> file_list \<Rightarrow> exn + file_list" where
  "include_only line fl =
     (if startswith line ''include ''
      then (if startswith (drop 8 line) ''/''
            then Inl (ValueError (''path '' @ drop 8 line @ '' cannot be absolute''))
            else Inr (fl\<lparr>files := files fl @ [drop 8 line]\<rparr>))
      else Inl (DistutilsTemplateError (''unknown action '' @ line)))"



section \<open>Properties of the path normalizers\<close>

lemma str_replace_Nil [simp]: "str_replace old new [] = []"
  by (simp add: str_replace_def)

lemma str_replace_Cons [simp]:
  "str_replace old new (c # s) = (if c = old then new else [c]) @ str_replace old new s"
  by (simp add: str_replace_def)

lemma str_replace_absent: "old \<notin> set s \<Longrightarrow> str_replace old new s = s"
  by (induction s) auto

lemma str_replace_removes: "old \<notin> set new \<Longrightarrow> old \<notin> set (str_replace old new s)"
  by (induction s) auto

text \<open>
  Claim C8. Both path normalizers propagate absence: \<^verbatim>\<open>to_platform_path(None)\<close> is
  \<^verbatim>\<open>None\<close> and \<^verbatim>\<open>to_unix_path(None)\<close> is \<^verbatim>\<open>None\<close>; for every string each returns a string.
  Neither can raise and neither has an effect: each is a function of its argument
  (and of the platform's separator).
\<close>

theorem normalizers_propagate_none:
  "to_platform_path os_sep None = None
   \<and> to_unix_path None = None
   \<and> (\<exists>r. to_platform_path os_sep (Some x) = Some r)
   \<and> (\<exists>r. to_unix_path (Some x) = Some r)"
  by (simp add: to_platform_path_def to_unix_path_def)

text \<open>
  Claim C9. Unix-separator normalization is idempotent: for every string \<open>x\<close>,
  \<^verbatim>\<open>to_unix_path(to_unix_path(x)) == to_unix_path(x)\<close>.
\<close>

theorem to_unix_path_idempotent:
  "to_unix_path (to_unix_path (Some x)) = to_unix_path (Some x)"
proof -
  have "CHR 0x5C \<notin> set (str_replace (CHR 0x5C) ''/'' x)"
    by (rule str_replace_removes) simp
  then have "str_replace (CHR 0x5C) ''/'' (str_replace (CHR 0x5C) ''/'' x)
             = str_replace (CHR 0x5C) ''/'' x"
    by (rule str_replace_absent)
  then show ?thesis
    by (simp add: to_unix_path_def)
qed

section \<open>Properties of \<^verbatim>\<open>parse_manifestin\<close>\<close>

text \<open>
  Claim C7. For every template path that does not exist on disk, \<^verbatim>\<open>parse_manifestin\<close>
  returns an empty collection of file paths and does not raise; nothing is printed.
\<close>

theorem parse_manifestin_missing_template:
  "\<not> path_exists fs template \<Longrightarrow> parse_manifestin fs read_template ptl template = (Inr [], [])"
  by (simp add: parse_manifestin_def)

theorem parse_manifestin_missing_template_witness:
  "\<not> path_exists fs_empty ''MANIFEST.in''
   \<and> parse_manifestin fs_empty template_lines include_only ''MANIFEST.in'' = (Inr [], [])"
proof -
  have h: "\<not> path_exists fs_empty ''MANIFEST.in''"
    by (simp add: fs_empty_def)
  from parse_manifestin_missing_template [OF h] h show ?thesis
    by simp
qed

text \<open>
  When the file cannot be opened, the exception of \<^verbatim>\<open>TextFile\<close> is the outcome.
\<close>

lemma parse_manifestin_unreadable:
  "path_exists fs template \<Longrightarrow> read_template template = Inl e \<Longrightarrow>
     parse_manifestin fs read_template ptl template = (Inl e, [])"
  by (simp add: parse_manifestin_def)

text \<open>
  A malformed line never decides the outcome: for any reads, also with a read that
  raises, and whatever the other lines do, the loop ends as it does on the reads without
  the malformed lines.
\<close>

lemma manifest_loop_without_malformed:
  assumes bad: "\<And>line fl. malformed line \<Longrightarrow>
      ptl line fl = Inl (DistutilsTemplateError (msg line))
      \<or> ptl line fl = Inl (ValueError (msg line))"
  shows "fst (manifest_loop ptl fname reads fl out)
         = fst (manifest_loop ptl fname
                  (filter (\<lambda>r. case r of Logical_line n line \<Rightarrow> \<not> malformed line
                                         | Read_error e \<Rightarrow> True) reads) fl out1)"
proof (induction reads arbitrary: fl out out1)
  case Nil
  show ?case by simp
next
  case (Cons r reads)
  show ?case
  proof (cases r)
    case (Read_error e)
    then show ?thesis by simp
  next
    case (Logical_line n line)
    show ?thesis
    proof (cases "malformed line")
      case True
      from bad [OF True, of fl]
      have "\<exists>e. ptl line fl = Inl e \<and> caught e = Some (msg line)" by auto
      then obtain e where "ptl line fl = Inl e" "caught e = Some (msg line)" by blast
      with True Logical_line
        Cons.IH [of fl "out @ [fname @ '', line '' @ n @ '': '' @ msg line]" out1]
      show ?thesis by simp
    next
      case False
      show ?thesis
      proof (cases "ptl line fl")
        case (Inr fl1)
        with False Logical_line Cons.IH [of fl1 out out1] show ?thesis by simp
      next
        case (Inl e)
        show ?thesis
        proof (cases "caught e")
          case None
          with False Logical_line Inl show ?thesis by simp
        next
          case (Some m)
          with False Logical_line Inl
            Cons.IH [of fl "out @ [fname @ '', line '' @ n @ '': '' @ m]"
              "out1 @ [fname @ '', line '' @ n @ '': '' @ m]"]
          show ?thesis by simp
        qed
      qed
    qed
  qed
qed

lemma parse_manifestin_without_malformed:
  assumes bad: "\<And>line fl. malformed line \<Longrightarrow>
      ptl line fl = Inl (DistutilsTemplateError (msg line))
      \<or> ptl line fl = Inl (ValueError (msg line))"
  shows "fst (parse_manifestin fs read_template ptl template)
         = fst (parse_manifestin fs
                  (\<lambda>p. map_sum id
                          (filter (\<lambda>r. case r of Logical_line n line \<Rightarrow> \<not> malformed line
                                                 | Read_error e \<Rightarrow> True))
                          (read_template p)) ptl template)"
proof (cases "read_template template")
  case (Inl e)
  then show ?thesis by (simp add: parse_manifestin_def)
next
  case (Inr reads)
  with manifest_loop_without_malformed [of malformed ptl msg template reads FileList "[]" "[]",
      OF bad]
  show ?thesis by (simp add: parse_manifestin_def)
qed




section \<open>Properties of \<^verbatim>\<open>push_dir\<close> and \<^verbatim>\<open>find_all_modules\<close>\<close>

lemma os_path_join_absolute: "startswith b ''/'' \<Longrightarrow> os_path_join a b = b"
  by (simp add: os_path_join_def)

lemma os_chdir_back:
  "startswith d ''/'' \<Longrightarrow> d \<in> dirs s \<Longrightarrow> os_chdir d s = (Inr (), s\<lparr>cwd := d\<rparr>)"
  by (simp add: os_chdir_def os_path_join_absolute)

lemma push_dir_enter_plain:
  "push_dir_enter makedirs (push_dir_init project_dir False) s = (r, s1) \<Longrightarrow>
     dirs s1 = dirs s
     \<and> (case r of Inl e \<Rightarrow> s1 = s | Inr cm \<Rightarrow> old_cwd cm = Some (cwd s))"
  by (auto simp: push_dir_enter_def push_dir_init_def os_getcwd_def os_chdir_def Let_def
      split: option.splits if_splits)

text \<open>
  Claim C5. For every discovery run through \<^verbatim>\<open>find_all_modules(project_dir)\<close>, the current
  working directory after the call equals the one before the call on every exit path:
  when the discovery returns, when it raises, and when entering the project directory
  fails. The process starts in an existing directory with an absolute path (what
  \<^verbatim>\<open>os.getcwd()\<close> returns), and the discovery, whatever else it does to the state, does not
  remove that directory.
\<close>

theorem find_all_modules_restores_cwd:
  assumes absolute: "startswith (cwd s) ''/''"
    and present: "cwd s \<in> dirs s"
    and kept: "\<And>t. cwd s \<in> dirs t \<Longrightarrow> cwd s \<in> dirs (snd (super_find_all_modules t))"
  shows "cwd (snd (find_all_modules makedirs super_find_all_modules project_dir s)) = cwd s"
proof -
  obtain r s1 where enter: "push_dir_enter makedirs (push_dir_init project_dir False) s = (r, s1)"
    by (cases "push_dir_enter makedirs (push_dir_init project_dir False) s")
  from push_dir_enter_plain [OF enter]
  have d1: "dirs s1 = dirs s"
    and r: "case r of Inl e \<Rightarrow> s1 = s | Inr cm \<Rightarrow> old_cwd cm = Some (cwd s)"
    by simp_all
  show ?thesis
  proof (cases r)
    case (Inl e)
    with r enter show ?thesis by (simp add: find_all_modules_def)
  next
    case (Inr cm)
    with r have old: "old_cwd cm = Some (cwd s)" by simp
    obtain v s2 where body: "super_find_all_modules s1 = (v, s2)"
      by (cases "super_find_all_modules s1")
    from kept [of s1] present d1 body have "cwd s \<in> dirs s2" by simp
    with absolute have "os_chdir (cwd s) s2 = (Inr (), s2\<lparr>cwd := cwd s\<rparr>)"
      by (rule os_chdir_back)
    with old have "push_dir_exit cm s2 = (Inr (), s2\<lparr>cwd := cwd s\<rparr>)"
      by (simp add: push_dir_exit_def)
    with enter Inr body show ?thesis by (simp add: find_all_modules_def)
  qed
qed

theorem find_all_modules_restores_cwd_witness:
  "fst (find_all_modules no_makedirs discovery_fails (Some ''/proj'') os_home)
     = Inl (DistutilsFileError ''package directory pkg does not exist'')
   \<and> cwd (snd (find_all_modules no_makedirs discovery_fails (Some ''/proj'') os_home))
     = cwd os_home
   \<and> cwd os_home = ''/home''"
proof -
  have absolute: "startswith (cwd os_home) ''/''"
    by (simp add: os_home_def startswith_def)
  have present: "cwd os_home \<in> dirs os_home"
    by (simp add: os_home_def)
  have kept: "\<And>t. cwd os_home \<in> dirs t \<Longrightarrow> cwd os_home \<in> dirs (snd (discovery_fails t))"
    by (simp add: discovery_fails_def)
  have raised: "fst (find_all_modules no_makedirs discovery_fails (Some ''/proj'') os_home)
     = Inl (DistutilsFileError ''package directory pkg does not exist'')"
    by (simp add: find_all_modules_def push_dir_enter_def push_dir_init_def push_dir_exit_def
        os_getcwd_def os_chdir_def os_path_join_def startswith_def endswith_def os_home_def
        discovery_fails_def Let_def)
  from find_all_modules_restores_cwd [of os_home discovery_fails no_makedirs "Some ''/proj''",
      OF absolute present kept] raised
  show ?thesis by (simp add: os_home_def)
qed

section \<open>Properties of \<^verbatim>\<open>check_module\<close>\<close>

text \<open>
  Claim C4, as stated, fails. With a module file present under the Primary Root and a
  directory of the same name under the Secondary Root, a check that looks under the
  Primary Root first finds the file; \<^verbatim>\<open>check_module\<close> looks under the Secondary Root
  first, takes the path there because it exists, and reports the file as missing.
\<close>

theorem check_module_counterexample:
  "path_isfile fs_shadowed ''foo.py''
   \<and> file_exists_spec fs_shadowed finder_inst ''foo'' ''foo.py'' = (True, [])
   \<and> check_module fs_shadowed finder_inst ''foo'' ''foo.py''
       = (False, [''file inst/foo.py (for module foo) not found''])"
  by (simp add: fs_shadowed_def finder_inst_def file_exists_spec_def check_module_def
      os_path_join_def startswith_def endswith_def not_found_warning_def)

text \<open>
  Claim C4, amended. \<^verbatim>\<open>check_module\<close> looks under the Secondary Root first: when a
  Secondary Root is configured and \<^verbatim>\<open>Secondary_Root/file_path\<close> exists, that path is the one
  tested; otherwise (no Secondary Root, or nothing there) the path under the Primary Root
  is tested. The result is whether the tested path is a regular file; when it is not, the
  result is False with one warning that names the tested path and the module. In
  particular, when the file is a regular file at neither location the result is False
  with a warning. It never raises: it is a total function that returns a boolean.
\<close>

theorem check_module_secondary_first:
  "(alternative_build_base self = None \<longrightarrow>
      check_module fs self module f
        = (path_isfile fs f, if path_isfile fs f then [] else [not_found_warning f module]))
   \<and> (alternative_build_base self = Some b \<and> path_exists fs (os_path_join b f) \<longrightarrow>
      check_module fs self module f
        = (path_isfile fs (os_path_join b f),
           if path_isfile fs (os_path_join b f) then []
           else [not_found_warning (os_path_join b f) module]))
   \<and> (alternative_build_base self = Some b \<and> \<not> path_exists fs (os_path_join b f) \<longrightarrow>
      check_module fs self module f
        = (path_isfile fs f, if path_isfile fs f then [] else [not_found_warning f module]))
   \<and> (\<not> path_isfile fs f
        \<and> (alternative_build_base self = None
            \<or> alternative_build_base self = Some b \<and> \<not> path_isfile fs (os_path_join b f)) \<longrightarrow>
      (\<exists>p. check_module fs self module f = (False, [not_found_warning p module])))"
  by (auto simp: check_module_def Let_def)

theorem check_module_secondary_first_witness:
  "check_module fs_shadowed finder_inst ''foo'' ''foo.py''
     = (path_isfile fs_shadowed ''inst/foo.py'',
        [not_found_warning ''inst/foo.py'' ''foo''])
   \<and> check_module fs_overlay finder_inst ''pkg.mod'' ''pkg/mod.py'' = (True, [])
   \<and> check_module fs_empty finder_inst ''foo'' ''foo.py''
     = (False, [not_found_warning ''foo.py'' ''foo''])"
proof -
  have j: "os_path_join ''inst'' ''foo.py'' = ''inst/foo.py''"
    "os_path_join ''inst'' ''pkg/mod.py'' = ''inst/pkg/mod.py''"
    by (simp_all add: os_path_join_def startswith_def endswith_def)
  have b: "alternative_build_base finder_inst = Some ''inst''"
    by (simp add: finder_inst_def)
  have e1: "path_exists fs_shadowed (os_path_join ''inst'' ''foo.py'')"
    "\<not> path_isfile fs_shadowed (os_path_join ''inst'' ''foo.py'')"
    by (simp_all add: j fs_shadowed_def)
  have e2: "path_exists fs_overlay (os_path_join ''inst'' ''pkg/mod.py'')"
    "path_isfile fs_overlay (os_path_join ''inst'' ''pkg/mod.py'')"
    by (simp_all add: j fs_overlay_def)
  have e3: "\<not> path_exists fs_empty (os_path_join ''inst'' ''foo.py'')"
    "\<not> path_isfile fs_empty ''foo.py''"
    by (simp_all add: fs_empty_def)
  from check_module_secondary_first [of finder_inst fs_shadowed "''foo''" "''foo.py''" "''inst''"]
    check_module_secondary_first [of finder_inst fs_overlay "''pkg.mod''" "''pkg/mod.py''" "''inst''"]
    check_module_secondary_first [of finder_inst fs_empty "''foo''" "''foo.py''" "''inst''"]
    b e1 e2 e3
  show ?thesis by (simp add: j)
qed

section \<open>Properties of \<^verbatim>\<open>find_package_modules\<close>\<close>

text \<open>
  Claim C3. For a package with declared directory \<open>pdir\<close>: when \<open>pdir\<close> is the empty string
  or exists under the Primary Root, the modules are enumerated from \<open>pdir\<close> itself (the
  base class is called with \<open>pdir\<close>, no directory is rewritten); otherwise, when a Secondary
  Root \<open>b\<close> is configured, they are enumerated from \<^verbatim>\<open>os.path.join(b, pdir)\<close>. With no
  Secondary Root the result is that of the base class, as it is.
\<close>

theorem find_package_modules_directory:
  "((pdir = [] \<or> path_exists fs pdir) \<longrightarrow>
      find_package_modules fs super_fpm self package pdir
        = map_sum id (map (strip_directory self)) (super_fpm package pdir))
   \<and> (pdir \<noteq> [] \<and> \<not> path_exists fs pdir \<and> alternative_build_base self = Some b \<longrightarrow>
      find_package_modules fs super_fpm self package pdir
        = map_sum id (map (strip_directory self)) (super_fpm package (os_path_join b pdir)))
   \<and> (alternative_build_base self = None \<longrightarrow>
      find_package_modules fs super_fpm self package pdir = super_fpm package pdir)"
proof -
  have none: "alternative_build_base self = None \<Longrightarrow> map (strip_directory self) ms = ms" for ms
    by (induction ms) (simp_all add: strip_directory_def)
  show ?thesis
    by (auto simp: find_package_modules_def none split: option.splits sum.splits)
qed

theorem find_package_modules_directory_witness:
  "find_package_modules fs_overlay super_overlay (finder_pkg ''inst'') ''pkg'' ''pkg''
     = map_sum id (map (strip_directory (finder_pkg ''inst''))) (super_overlay ''pkg'' ''inst/pkg'')
   \<and> find_package_modules fs_installer super_installer finder_installer
        ''cmake-installer'' ''cmake-installer''
     = map_sum id (map (strip_directory finder_installer))
         (super_installer ''cmake-installer'' ''cmake-installer'')
   \<and> super_overlay ''pkg'' ''inst/pkg'' = Inr [(''pkg'', ''mod'', ''inst/pkg/mod.py'')]"
proof -
  have j: "os_path_join ''inst'' ''pkg'' = ''inst/pkg''"
    by (simp add: os_path_join_def startswith_def endswith_def)
  have absent: "''pkg'' \<noteq> [] \<and> \<not> path_exists fs_overlay ''pkg''
      \<and> alternative_build_base (finder_pkg ''inst'') = Some ''inst''"
    by (simp add: fs_overlay_def finder_pkg_def)
  have present: "''cmake-installer'' = [] \<or> path_exists fs_installer ''cmake-installer''"
    by (simp add: fs_installer_def)
  from find_package_modules_directory [of "''pkg''" fs_overlay super_overlay "finder_pkg ''inst''"
      "''pkg''" "''inst''"]
    find_package_modules_directory [of "''cmake-installer''" fs_installer super_installer
      finder_installer "''cmake-installer''" "''cmake-install''"]
    absent present
  show ?thesis by (simp add: j super_overlay_def)
qed

text \<open>What \<^verbatim>\<open>_strip_directory\<close> does to one triple when a Secondary Root is configured.\<close>

lemma strip_directory_prefix:
  "alternative_build_base self = Some b \<Longrightarrow>
     strip_directory self (p, m, f) = (p, m, if startswith f b then drop (length b + 1) f else f)"
  by (simp add: strip_directory_def)

text \<open>
  Claim C10. When a Secondary Root \<open>b\<close> is configured, the prefix stripping of
  \<^verbatim>\<open>find_package_modules\<close> is a raw character-prefix match: of every module file path that
  the base class lists and whose string begins with \<open>b\<close>, exactly the first
  \<open>length b + 1\<close> characters are removed, whether or not the match ends at a segment
  boundary; every other path is returned as it is. With the base \<^verbatim>\<open>cmake-install\<close>, the
  path \<^verbatim>\<open>cmake-installer/x.py\<close> of a package directory that exists in the source tree
  becomes \<^verbatim>\<open>r/x.py\<close>.
\<close>

theorem find_package_modules_raw_prefix:
  assumes base: "alternative_build_base self = Some b"
    and listed: "super_fpm package
                   (if pdir \<noteq> [] \<and> \<not> path_exists fs pdir then os_path_join b pdir else pdir)
                 = Inr modules"
  shows "find_package_modules fs super_fpm self package pdir
           = Inr (map (\<lambda>(p, m, f). (p, m, if startswith f b then drop (length b + 1) f else f))
                      modules)"
proof -
  have "map (strip_directory self) modules
          = map (\<lambda>(p, m, f). (p, m, if startswith f b then drop (length b + 1) f else f)) modules"
    by (rule map_cong) (auto simp: strip_directory_prefix [OF base])
  with base listed show ?thesis
    by (simp add: find_package_modules_def)
qed

theorem find_package_modules_raw_prefix_witness:
  "startswith ''cmake-installer/x.py'' ''cmake-install''
   \<and> length ''cmake-install'' + 1 = 14
   \<and> find_package_modules fs_installer super_installer finder_installer
        ''cmake-installer'' ''cmake-installer''
      = Inr [(''cmake-installer'', ''x'', ''r/x.py'')]"
proof -
  have base: "alternative_build_base finder_installer = Some ''cmake-install''"
    by (simp add: finder_installer_def)
  have listed: "super_installer ''cmake-installer''
      (if ''cmake-installer'' \<noteq> [] \<and> \<not> path_exists fs_installer ''cmake-installer''
       then os_path_join ''cmake-install'' ''cmake-installer'' else ''cmake-installer'')
      = Inr [(''cmake-installer'', ''x'', ''cmake-installer/x.py'')]"
    by (simp add: fs_installer_def super_installer_def)
  from find_package_modules_raw_prefix [where self = finder_installer and fs = fs_installer
      and super_fpm = super_installer and pdir = "''cmake-installer''", OF base listed]
  show ?thesis by (simp add: startswith_def)
qed

section \<open>The paths returned through the overlay\<close>

lemma startswith_append: "startswith (b @ r) b"
  by (simp add: startswith_def)

lemma endswith_sep: "endswith s ''/'' \<longleftrightarrow> s \<noteq> [] \<and> last s = CHR ''/''"
proof (cases s rule: rev_cases)
  case Nil
  then show ?thesis by (simp add: endswith_def)
next
  case (snoc xs x)
  then show ?thesis by (simp add: endswith_def)
qed

lemma os_path_join_relative:
  "a \<noteq> [] \<Longrightarrow> \<not> endswith a ''/'' \<Longrightarrow> \<not> startswith b ''/'' \<Longrightarrow> os_path_join a b = a @ ''/'' @ b"
  by (simp add: os_path_join_def)

lemma os_path_join_under:
  assumes "d \<noteq> []" "\<not> startswith name ''/''"
  shows "os_path_join (a @ ''/'' @ d) name = a @ ''/'' @ os_path_join d name"
  using assms by (simp add: os_path_join_def endswith_sep)

text \<open>
  Where the stripping is right. Let the Secondary Root \<open>b\<close> not end with the separator, and
  let a package be resolved through the overlay: its declared directory \<open>pdir\<close> is
  non-empty, absent under the Primary Root and present at \<^verbatim>\<open>os.path.join(b, pdir)\<close>. Then
  every module file that the base class lists there, as
  \<^verbatim>\<open>os.path.join(os.path.join(b, pdir), name)\<close>, is returned as \<^verbatim>\<open>os.path.join(pdir, name)\<close>:
  the leading \<open>b\<close> and the separator that \<^verbatim>\<open>os.path.join\<close> put after it are removed, and the
  caller sees the path under the declared directory, in the Primary Root's logical
  namespace.
\<close>

lemma find_package_modules_overlay_paths:
  assumes base: "alternative_build_base self = Some b"
    and no_sep: "\<not> endswith b ''/''"
    and declared: "pdir \<noteq> []"
    and absent: "\<not> path_exists fs pdir"
    and present: "path_exists fs (os_path_join b pdir)"
    and listed: "super_fpm package (os_path_join b pdir)
                 = Inr (map (\<lambda>(m, name). (package, m, os_path_join (os_path_join b pdir) name))
                            names)"
    and names: "\<forall>(m, name) \<in> set names. \<not> startswith name ''/''"
  shows "find_package_modules fs super_fpm self package pdir
           = Inr (map (\<lambda>(m, name). (package, m, os_path_join pdir name)) names)"
proof -
  have relative: "\<not> startswith pdir ''/''"
  proof
    assume "startswith pdir ''/''"
    then have "os_path_join b pdir = pdir" by (simp add: os_path_join_def)
    with absent present show False by simp
  qed
  have nonempty: "b \<noteq> []"
  proof
    assume "b = []"
    then have "os_path_join b pdir = pdir" by (simp add: os_path_join_def)
    with absent present show False by simp
  qed
  have joined: "os_path_join b pdir = b @ ''/'' @ pdir"
    using nonempty no_sep relative by (rule os_path_join_relative)
  have one: "strip_directory self (package, m, os_path_join (os_path_join b pdir) name)
               = (package, m, os_path_join pdir name)"
    if "(m, name) \<in> set names" for m name
  proof -
    from that names have "\<not> startswith name ''/''" by auto
    with declared have "os_path_join (b @ ''/'' @ pdir) name = b @ ''/'' @ os_path_join pdir name"
      by (rule os_path_join_under)
    then show ?thesis
      using base by (simp add: joined strip_directory_def startswith_append)
  qed
  have "map (strip_directory self)
          (map (\<lambda>(m, name). (package, m, os_path_join (os_path_join b pdir) name)) names)
        = map (\<lambda>(m, name). (package, m, os_path_join pdir name)) names"
    using one by (auto simp: map_eq_conv)
  with base declared absent listed show ?thesis
    by (simp add: find_package_modules_def)
qed

lemma find_package_modules_overlay_paths_example:
  "find_package_modules fs_overlay super_overlay (finder_pkg ''inst'') ''pkg'' ''pkg''
     = Inr [(''pkg'', ''mod'', ''pkg/mod.py'')]"
proof -
  have j: "os_path_join ''inst'' ''pkg'' = ''inst/pkg''"
    "os_path_join ''inst/pkg'' ''mod.py'' = ''inst/pkg/mod.py''"
    "os_path_join ''pkg'' ''mod.py'' = ''pkg/mod.py''"
    by (simp_all add: os_path_join_def startswith_def endswith_def)
  have base: "alternative_build_base (finder_pkg ''inst'') = Some ''inst''"
    by (simp add: finder_pkg_def)
  have no_sep: "\<not> endswith ''inst'' ''/''" by (simp add: endswith_def)
  have declared: "''pkg'' \<noteq> []" by simp
  have absent: "\<not> path_exists fs_overlay ''pkg''" by (simp add: fs_overlay_def)
  have present: "path_exists fs_overlay (os_path_join ''inst'' ''pkg'')"
    by (simp add: j fs_overlay_def)
  have listed: "super_overlay ''pkg'' (os_path_join ''inst'' ''pkg'')
      = Inr (map (\<lambda>(m, name). (''pkg'', m, os_path_join (os_path_join ''inst'' ''pkg'') name))
                 [(''mod'', ''mod.py'')])"
    by (simp add: j super_overlay_def)
  have names: "\<forall>(m, name) \<in> set [(''mod'', ''mod.py'')]. \<not> startswith name ''/''"
    by (simp add: startswith_def)
  from find_package_modules_overlay_paths [where self = "finder_pkg ''inst''" and b = "''inst''"
      and pdir = "''pkg''" and fs = fs_overlay and super_fpm = super_overlay
      and package = "''pkg''" and names = "[(''mod'', ''mod.py'')]",
      OF base no_sep declared absent present listed names]
  show ?thesis by (simp add: j)
qed

text \<open>
  Claim C1. For every configured Secondary Root and every package resolved through the
  overlay, each triple returned by \<^verbatim>\<open>find_package_modules\<close> should have a file path with
  the Secondary Root prefix stripped, rooted at the Primary Root's logical namespace. The
  code removes \<open>length b + 1\<close> characters, which takes for granted that \<^verbatim>\<open>os.path.join\<close>
  put a separator after the base. With the Secondary Root \<^verbatim>\<open>inst/\<close>, written with a
  trailing separator, \<^verbatim>\<open>os.path.join\<close> adds none: the package \<^verbatim>\<open>pkg\<close>, absent under the
  Primary Root, is found at \<^verbatim>\<open>inst/pkg\<close>, the base class lists \<^verbatim>\<open>inst/pkg/mod.py\<close>, and
  the path returned is \<^verbatim>\<open>kg/mod.py\<close>, not the path \<^verbatim>\<open>pkg/mod.py\<close> under the declared
  directory.
\<close>

theorem find_package_modules_trailing_separator:
  "alternative_build_base (finder_pkg ''inst/'') = Some ''inst/''
   \<and> \<not> path_exists fs_overlay ''pkg''
   \<and> path_exists fs_overlay (os_path_join ''inst/'' ''pkg'')
   \<and> super_overlay ''pkg'' (os_path_join ''inst/'' ''pkg'')
       = Inr [(''pkg'', ''mod'', ''inst/pkg/mod.py'')]
   \<and> find_package_modules fs_overlay super_overlay (finder_pkg ''inst/'') ''pkg'' ''pkg''
       = Inr [(''pkg'', ''mod'', ''kg/mod.py'')]
   \<and> os_path_join ''pkg'' ''mod.py'' = ''pkg/mod.py''"
  by (simp add: finder_pkg_def fs_overlay_def super_overlay_def find_package_modules_def
      strip_directory_def os_path_join_def startswith_def endswith_def)

section \<open>Properties of \<^verbatim>\<open>strip_package\<close>\<close>

text \<open>
  Taking components off the front succeeds exactly when they are the leading segments,
  and leaves the segments after them.
\<close>

lemma strip_components_take_drop:
  "strip_components ps segs =
     (if take (length ps) segs = ps then Some (drop (length ps) segs) else None)"
  by (induction ps segs rule: strip_components.induct) auto

text \<open>
  Splitting and joining: a segment of a split holds no delimiter and only characters of
  the string, and the split of a join of delimiter-free segments gives them back.
\<close>

lemma str_split_nonempty: "str_split c s \<noteq> []"
  by (induction s) (auto split: list.splits)

lemma str_split_no_sep: "seg \<in> set (str_split c s) \<Longrightarrow> c \<notin> set seg"
  by (induction s arbitrary: seg) (auto split: list.splits if_splits)

lemma str_split_chars: "seg \<in> set (str_split c s) \<Longrightarrow> x \<in> set seg \<Longrightarrow> x \<in> set s"
proof (induction s arbitrary: seg)
  case Nil
  then show ?case by simp
next
  case (Cons a s)
  show ?case
  proof (cases "a = c")
    case True
    with Cons show ?thesis by auto
  next
    case False
    obtain h t where ht: "str_split c s = h # t"
      using str_split_nonempty [of c s] by (cases "str_split c s") auto
    with False Cons.prems have "seg = a # h \<or> seg \<in> set t" by simp
    then show ?thesis
    proof
      assume "seg = a # h"
      with Cons.prems(2) have "x = a \<or> x \<in> set h" by simp
      with Cons.IH [of h] ht show ?thesis by auto
    next
      assume "seg \<in> set t"
      with Cons.IH [of seg] ht Cons.prems(2) show ?thesis by simp
    qed
  qed
qed

lemma str_split_plain: "c \<notin> set x \<Longrightarrow> str_split c x = [x]"
  by (induction x) (auto split: list.splits)

lemma str_split_append:
  "c \<notin> set x \<Longrightarrow> str_split c (x @ c # r) = x # str_split c r"
  by (induction x) (auto split: list.splits)

lemma str_split_join:
  "segs \<noteq> [] \<Longrightarrow> \<forall>seg \<in> set segs. c \<notin> set seg \<Longrightarrow> str_split c (str_join [c] segs) = segs"
proof (induction "[c]" segs rule: str_join.induct)
  case 1
  then show ?case by simp
next
  case (2 x)
  then show ?case by (simp add: str_split_plain)
next
  case (3 x y ys)
  then show ?case by (simp add: str_split_append)
qed

lemma str_join_chars: "set (str_join sep segs) \<subseteq> set sep \<union> \<Union> (set ` set segs)"
  by (induction sep segs rule: str_join.induct) auto

lemma path_segments_clean:
  assumes "seg \<in> set (path_segments f)"
  shows "CHR ''/'' \<notin> set seg \<and> CHR 0x5C \<notin> set seg"
proof -
  have "CHR 0x5C \<notin> set (str_replace (CHR 0x5C) ''/'' f)"
    by (rule str_replace_removes) simp
  with assms str_split_chars [of seg "CHR ''/''" "str_replace (CHR 0x5C) ''/'' f" "CHR 0x5C"]
  have "CHR 0x5C \<notin> set seg" by (auto simp: path_segments_def)
  with assms show ?thesis by (auto simp: path_segments_def dest: str_split_no_sep)
qed

lemma path_segments_join:
  assumes ne: "segs \<noteq> []" and clean: "\<forall>seg \<in> set segs. CHR ''/'' \<notin> set seg \<and> CHR 0x5C \<notin> set seg"
  shows "path_segments (str_join ''/'' segs) = segs"
proof -
  have "CHR 0x5C \<notin> set (str_join ''/'' segs)"
    using str_join_chars [of "''/''" segs] clean by auto
  then have "str_replace (CHR 0x5C) ''/'' (str_join ''/'' segs) = str_join ''/'' segs"
    by (rule str_replace_absent)
  moreover have "str_split CHR ''/'' (str_join ''/'' segs) = segs"
    using ne clean by (intro str_split_join) auto
  ultimately show ?thesis by (simp add: path_segments_def)
qed

text \<open>
  Claim C2. For every list of package-name components \<open>package_parts\<close> and every path
  \<open>f\<close>, with both \<^verbatim>\<open>/\<close> and \<^verbatim>\<open>\\<close> taken as delimiters: when the leading segments of \<open>f\<close>
  equal the components exactly (the list is not empty and \<open>f\<close> is not absolute),
  \<^verbatim>\<open>strip_package\<close> removes exactly those segments: the result is the remaining segments
  joined with \<^verbatim>\<open>/\<close>, its segments are the remaining segments when some remain, and it is
  the empty string when all segments are consumed. When \<open>f\<close> does not begin with the
  components (the list is empty, \<open>f\<close> is absolute, or the leading segments differ, as
  when only a proper prefix of the components matches), the result is \<open>f\<close> unchanged.
\<close>

theorem strip_package_segments:
  "(package_parts \<noteq> [] \<and> \<not> is_absolute f
      \<and> take (length package_parts) (path_segments f) = package_parts \<longrightarrow>
      strip_package package_parts f
        = str_join ''/'' (drop (length package_parts) (path_segments f)))
   \<and> (package_parts \<noteq> [] \<and> \<not> is_absolute f
      \<and> take (length package_parts) (path_segments f) = package_parts
      \<and> length package_parts < length (path_segments f) \<longrightarrow>
      path_segments (strip_package package_parts f)
        = drop (length package_parts) (path_segments f))
   \<and> (package_parts \<noteq> [] \<and> \<not> is_absolute f \<and> path_segments f = package_parts \<longrightarrow>
      strip_package package_parts f = [])
   \<and> (package_parts = [] \<or> is_absolute f
      \<or> take (length package_parts) (path_segments f) \<noteq> package_parts \<longrightarrow>
      strip_package package_parts f = f)"
proof -
  have clean: "\<forall>seg \<in> set (drop (length package_parts) (path_segments f)).
      CHR ''/'' \<notin> set seg \<and> CHR 0x5C \<notin> set seg"
    using path_segments_clean [of _ f] by (auto dest: in_set_dropD)
  have rest: "length package_parts < length (path_segments f) \<Longrightarrow>
      path_segments (str_join ''/'' (drop (length package_parts) (path_segments f)))
        = drop (length package_parts) (path_segments f)"
    using clean by (intro path_segments_join) auto
  show ?thesis
    by (auto simp: strip_package_def strip_components_take_drop rest)
qed

text \<open>The cases of \<^verbatim>\<open>test_strip_package\<close> in \<^verbatim>\<open>tests/test_setup.py\<close>.\<close>

lemma test_strip_package:
  "strip_package [] '''' = ''''
   \<and> strip_package [] ''foo/file.py'' = ''foo/file.py''
   \<and> strip_package [''foo''] '''' = ''''
   \<and> strip_package [''foo''] ''foo/file.py'' = ''file.py''
   \<and> strip_package [''foo''] (''foo'' @ [CHR 0x5C] @ ''file.py'') = ''file.py''
   \<and> strip_package [''foo'', ''bar''] ''foo/file.py'' = ''foo/file.py''
   \<and> strip_package [''foo'', ''bar''] ''foo/bar/file.py'' = ''file.py''
   \<and> strip_package [''foo'', ''bar''] ''foo/bar/baz/file.py'' = ''baz/file.py''
   \<and> strip_package [''foo''] ''/foo/file.py'' = ''/foo/file.py''"
  by code_simp

theorem strip_package_segments_witness:
  "strip_package [''foo'', ''bar''] ''foo/bar/baz/file.py'' = ''baz/file.py''
   \<and> path_segments (strip_package [''foo'', ''bar''] ''foo/bar/baz/file.py'') = [''baz'', ''file.py'']
   \<and> strip_package [''foo''] ''foo'' = []
   \<and> strip_package [''foo'', ''bar''] ''foo/file.py'' = ''foo/file.py''
   \<and> strip_package [''foo''] ''/foo/file.py'' = ''/foo/file.py''
   \<and> strip_package [] ''foo/file.py'' = ''foo/file.py''"
proof -
  have s1: "path_segments ''foo/bar/baz/file.py'' = [''foo'', ''bar'', ''baz'', ''file.py'']"
    by code_simp
  have s2: "path_segments ''foo'' = [''foo'']" by code_simp
  have s3: "path_segments ''foo/file.py'' = [''foo'', ''file.py'']" by code_simp
  have s4: "path_segments ''baz/file.py'' = [''baz'', ''file.py'']" by code_simp
  have a1: "\<not> is_absolute ''foo/bar/baz/file.py''" "\<not> is_absolute ''foo''"
    "is_absolute ''/foo/file.py''"
    by code_simp+
  from strip_package_segments [of "[''foo'', ''bar'']" "''foo/bar/baz/file.py''"]
    strip_package_segments [of "[''foo'']" "''foo''"]
    strip_package_segments [of "[''foo'', ''bar'']" "''foo/file.py''"]
    strip_package_segments [of "[''foo'']" "''/foo/file.py''"]
    strip_package_segments [of "[]" "''foo/file.py''"]
    s1 s2 s3 s4 a1
  show ?thesis by simp
qed

end
